theory Spec2Isabelle
  imports Main
begin

section \<open>JavaScript values, errors and promise outcomes\<close>

text \<open>
  The JWT bearer grant type of \<^verbatim>\<open>lib/grant-types/jwt-bearer.js\<close> handles values only
  through truthiness tests (\<^verbatim>\<open>!request\<close>, \<^verbatim>\<open>!user\<close>) and property reads
  (\<^verbatim>\<open>request.body.assertion\<close>). A value is one of the JavaScript primitives or a plain
  object, given by its property table. Numbers are tested for truthiness only, so a number
  is an integer or \<^verbatim>\<open>NaN\<close>: every other number is truthy like a non-zero integer.
\<close>

datatype jsval =
    JUndefined
  | JNull
  | JBool bool
  | JNum int
  | JNaN
  | JStr string
  | JObj "(string \<times> jsval) list"

text \<open>\<^verbatim>\<open>!v\<close> is \<open>\<not> truthy v\<close>.\<close>

fun truthy :: "jsval \<Rightarrow> bool" where
  "truthy JUndefined = False"
| "truthy JNull = False"
| "truthy (JBool b) = b"
| "truthy (JNum n) = (n \<noteq> 0)"
| "truthy JNaN = False"
| "truthy (JStr s) = (s \<noteq> [])"
| "truthy (JObj fs) = True"

text \<open>
  An error is represented by its class and by its \<^verbatim>\<open>message\<close> property. \<open>TypeError\<close> is
  the engine's own; \<open>OtherError\<close> stands for every other class a collaborator may raise,
  by its name.
\<close>

datatype error_kind =
    InvalidArgument
  | InvalidRequest
  | InvalidGrant
  | TypeError
  | OtherError string

record js_error =
  kind :: error_kind
  message :: string

text \<open>
  Modelled from the spec: the base class \<^verbatim>\<open>OAuthError\<close> of \<^verbatim>\<open>../errors\<close>, which is not
  among the sources. Section 7 of the spec names the error kinds and says that the text
  of a resolver's error is preserved as the message of the \<open>InvalidGrant\<close> error. The
  class of the library keeps a non-empty message and replaces an empty one by the HTTP
  status text of the class's status code; the definition follows the class, with the
  status text as its second argument.
\<close>

definition OAuthError :: "error_kind \<Rightarrow> string \<Rightarrow> string \<Rightarrow> js_error" where
  "OAuthError k status m = \<lparr>kind = k, message = (if m = [] then status else m)\<rparr>"

text \<open>
  Modelled from the spec: the class of \<^verbatim>\<open>../errors/invalid-argument-error\<close>, which is not
  among the sources: an \<open>InvalidArgument\<close> error (section 7), of status code 500.
\<close>

definition InvalidArgumentError :: "string \<Rightarrow> js_error" where
  "InvalidArgumentError m = OAuthError InvalidArgument ''Internal Server Error'' m"

text \<open>
  Modelled from the spec: the class of \<^verbatim>\<open>../errors/invalid-request-error\<close>, which is not
  among the sources: an \<open>InvalidRequest\<close> error (section 7), of status code 400.
\<close>

definition InvalidRequestError :: "string \<Rightarrow> js_error" where
  "InvalidRequestError m = OAuthError InvalidRequest ''Bad Request'' m"

text \<open>
  Modelled from the spec: the class of \<^verbatim>\<open>../errors/invalid-grant-error\<close>, which is not
  among the sources: an \<open>InvalidGrant\<close> error (section 7), of status code 400. Built from
  an empty message it carries the message \<^verbatim>\<open>Bad Request\<close>.
\<close>

definition InvalidGrantError :: "string \<Rightarrow> js_error" where
  "InvalidGrantError m = OAuthError InvalidGrant ''Bad Request'' m"

definition type_error :: "string \<Rightarrow> js_error" where
  "type_error m = \<lparr>kind = TypeError, message = m\<rparr>"

text \<open>
  Reading property \<open>p\<close> of a value: \<^verbatim>\<open>undefined\<close> and \<^verbatim>\<open>null\<close> have no properties and
  the read throws a \<open>TypeError\<close> (the message text is the engine's); an object yields the
  value stored under \<open>p\<close>, or \<^verbatim>\<open>undefined\<close>; the other primitives have no own property
  named \<^verbatim>\<open>body\<close> or \<^verbatim>\<open>assertion\<close>, the only names read here.
\<close>

fun get_prop :: "jsval \<Rightarrow> string \<Rightarrow> js_error + jsval" where
  "get_prop JUndefined p = Inl (type_error (''Cannot read properties of undefined, reading '' @ p))"
| "get_prop JNull p = Inl (type_error (''Cannot read properties of null, reading '' @ p))"
| "get_prop (JObj fs) p = (case map_of fs p of None \<Rightarrow> Inr JUndefined | Some v \<Rightarrow> Inr v)"
| "get_prop v p = Inr JUndefined"

text \<open>
  What a call that may return a promise comes to: it throws synchronously, or the promise
  it returns is rejected, or it is fulfilled with a value (a plain return value counts as
  fulfilled, as \<^verbatim>\<open>Promise.all\<close> and \<^verbatim>\<open>then\<close> treat it).
\<close>

datatype 'a outcome =
    Throws js_error
  | Rejects js_error
  | Resolves 'a

fun failed :: "'a outcome \<Rightarrow> bool" where
  "failed (Resolves v) = False"
| "failed r = True"

text \<open>A throw inside a \<^verbatim>\<open>then\<close> callback rejects the promise of the chain.\<close>

fun in_then :: "'a outcome \<Rightarrow> 'a outcome" where
  "in_then (Throws e) = Rejects e"
| "in_then r = r"

section \<open>The model, the options and the grant type instance\<close>

text \<open>
  A model method wrapped by \<^verbatim>\<open>promisify\<close> settles with an error or a value. The host's
  model is an object whose methods are present (a function) or absent. \<open>model_getUser\<close>
  is only tested for presence by the constructor and never called. The token handed to
  the model's \<^verbatim>\<open>saveToken\<close> is the object literal built in the \<^verbatim>\<open>spread\<close> callback, an
  object value with its five properties in the order they are written.
\<close>

type_synonym settled = "js_error + jsval"

record oauth_model =
  model_getUser :: "(jsval \<Rightarrow> jsval \<Rightarrow> settled) option"
  model_getUserFromJWT :: "(jsval \<Rightarrow> settled) option"
  model_saveToken :: "(jsval \<Rightarrow> jsval \<Rightarrow> jsval \<Rightarrow> settled) option"

record options =
  opt_model :: "oauth_model option"

text \<open>
  The instance (\<^verbatim>\<open>this\<close>): the model stored by the inherited constructor, and the
  methods inherited from \<^verbatim>\<open>AbstractGrantType\<close>, which is required from
  \<^verbatim>\<open>./abstract-grant-type\<close> and taken as given: \<open>getScope\<close> returns or throws; the
  five producers called by \<^verbatim>\<open>saveToken\<close> each come to an outcome.
\<close>

record grant =
  model :: oauth_model
  getScope :: "jsval \<Rightarrow> js_error + jsval"
  validateScope :: "jsval \<Rightarrow> jsval \<Rightarrow> jsval \<Rightarrow> jsval outcome"
  generateAccessToken :: "jsval \<Rightarrow> jsval \<Rightarrow> jsval \<Rightarrow> jsval outcome"
  generateRefreshToken :: "jsval \<Rightarrow> jsval \<Rightarrow> jsval \<Rightarrow> jsval outcome"
  getAccessTokenExpiresAt :: "jsval outcome"
  getRefreshTokenExpiresAt :: "jsval outcome"

text \<open>The calls made on collaborators, in the order they are issued.\<close>

datatype event =
    CallGetScope jsval
  | CallGetUserFromJWT jsval
  | CallValidateScope jsval jsval jsval
  | CallGenerateAccessToken jsval jsval jsval
  | CallGenerateRefreshToken jsval jsval jsval
  | CallGetAccessTokenExpiresAt
  | CallGetRefreshTokenExpiresAt
  | CallSaveToken jsval jsval jsval

fun is_CallSaveToken :: "event \<Rightarrow> bool" where
  "is_CallSaveToken (CallSaveToken t c u) = True"
| "is_CallSaveToken ev = False"

fun is_CallGetUserFromJWT :: "event \<Rightarrow> bool" where
  "is_CallGetUserFromJWT (CallGetUserFromJWT a) = True"
| "is_CallGetUserFromJWT ev = False"

section \<open>The constructor\<close>

text \<open>
  \<^verbatim>\<open>function JWTBearerGrantType(options)\<close>. The inherited constructor
  \<^verbatim>\<open>AbstractGrantType.call(this, options)\<close> is a parameter: it throws or yields the
  instance.
\<close>

definition JWTBearerGrantType :: "(options \<Rightarrow> js_error + grant) \<Rightarrow> options option \<Rightarrow> js_error + grant" where
  "JWTBearerGrantType AbstractGrantType options =
     (let options = (case options of None \<Rightarrow> \<lparr>opt_model = None\<rparr> | Some opts \<Rightarrow> opts) in
      case opt_model options of
        None \<Rightarrow> Inl (InvalidArgumentError ''Missing parameter: `model`'')
      | Some m \<Rightarrow>
          if model_getUser m = None then
            Inl (InvalidArgumentError ''Invalid argument: model does not implement `getUser()`'')
          else if model_saveToken m = None then
            Inl (InvalidArgumentError ''Invalid argument: model does not implement `saveToken()`'')
          else AbstractGrantType options)"

section \<open>getUser\<close>

text \<open>
  \<^verbatim>\<open>JWTBearerGrantType.prototype.getUser\<close>. The read of \<^verbatim>\<open>request.body.assertion\<close> and
  the test of the assertion are synchronous. \<^verbatim>\<open>promisify\<close> of an absent method fails with
  a \<open>TypeError\<close> before any promise exists. The \<^verbatim>\<open>catch\<close> handler sees every rejection
  of the chain, also the \<open>InvalidGrantError\<close> thrown in the \<^verbatim>\<open>then\<close> callback before
  it, and rethrows an \<open>InvalidGrantError\<close> built from the message.
\<close>

definition getUser :: "grant \<Rightarrow> jsval \<Rightarrow> event list \<times> jsval outcome" where
  "getUser this request =
     (case get_prop request ''body'' of
        Inl e \<Rightarrow> ([], Throws e)
      | Inr body \<Rightarrow>
          (case get_prop body ''assertion'' of
             Inl e \<Rightarrow> ([], Throws e)
           | Inr assertion \<Rightarrow>
               if \<not> truthy assertion then
                 ([], Throws (InvalidRequestError ''Missing parameter: `assertion`''))
               else
                 (case model_getUserFromJWT (model this) of
                    None \<Rightarrow> ([], Throws (type_error ''fn is not a function''))
                  | Some getUserFromJWT \<Rightarrow>
                      ([CallGetUserFromJWT assertion],
                       (case (case getUserFromJWT assertion of
                                Inl e \<Rightarrow> Inl e
                              | Inr user \<Rightarrow>
                                  if \<not> truthy user then
                                    Inl (InvalidGrantError ''Invalid grant: jwt is invalid'')
                                  else Inr user) of
                          Inl e \<Rightarrow> Rejects (InvalidGrantError (message e))
                        | Inr user \<Rightarrow> Resolves user)))))"

section \<open>saveToken\<close>

text \<open>
  The array literal \<^verbatim>\<open>fns\<close> calls the five producers from left to right; a producer
  that throws synchronously ends the evaluation, and the later ones are not called.
\<close>

fun eval_array :: "(event \<times> jsval outcome) list \<Rightarrow> event list \<times> (js_error + jsval outcome list)" where
  "eval_array [] = ([], Inr [])"
| "eval_array ((ev, Throws e) # rest) = ([ev], Inl e)"
| "eval_array ((ev, r) # rest) =
     (case eval_array rest of
        (tr, Inl e) \<Rightarrow> (ev # tr, Inl e)
      | (tr, Inr rs) \<Rightarrow> (ev # tr, Inr (r # rs)))"

text \<open>
  \<^verbatim>\<open>Promise.all\<close>: fulfilled with the values when every element is, rejected as soon as
  one element is. When several elements are rejected the library reports the one that
  settles first; the model reports the leftmost.
\<close>

fun Promise_all :: "jsval outcome list \<Rightarrow> js_error + jsval list" where
  "Promise_all [] = Inr []"
| "Promise_all (Resolves v # rs) =
     (case Promise_all rs of Inl e \<Rightarrow> Inl e | Inr vs \<Rightarrow> Inr (v # vs))"
| "Promise_all (Rejects e # rs) = Inl e"
| "Promise_all (Throws e # rs) = Inl e"

text \<open>
  \<^verbatim>\<open>JWTBearerGrantType.prototype.saveToken\<close>. The \<^verbatim>\<open>spread\<close> callback runs only when
  \<^verbatim>\<open>Promise.all\<close> is fulfilled; it builds the token and calls the model's
  \<^verbatim>\<open>saveToken\<close> through \<^verbatim>\<open>promisify\<close>. The array has five elements, so the callback
  always receives five values and the last branch below is never taken.
\<close>

definition saveToken :: "grant \<Rightarrow> jsval \<Rightarrow> jsval \<Rightarrow> jsval \<Rightarrow> event list \<times> jsval outcome" where
  "saveToken this user client scope =
     (case eval_array
        [(CallValidateScope user client scope, validateScope this user client scope),
         (CallGenerateAccessToken client user scope, generateAccessToken this client user scope),
         (CallGenerateRefreshToken client user scope, generateRefreshToken this client user scope),
         (CallGetAccessTokenExpiresAt, getAccessTokenExpiresAt this),
         (CallGetRefreshTokenExpiresAt, getRefreshTokenExpiresAt this)] of
        (tr, Inl e) \<Rightarrow> (tr, Throws e)
      | (tr, Inr fns) \<Rightarrow>
          (case Promise_all fns of
             Inl e \<Rightarrow> (tr, Rejects e)
           | Inr [scope, accessToken, refreshToken, accessTokenExpiresAt, refreshTokenExpiresAt] \<Rightarrow>
               (let token = JObj [(''accessToken'', accessToken),
                                  (''accessTokenExpiresAt'', accessTokenExpiresAt),
                                  (''refreshToken'', refreshToken),
                                  (''refreshTokenExpiresAt'', refreshTokenExpiresAt),
                                  (''scope'', scope)] in
                case model_saveToken (model this) of
                  None \<Rightarrow> (tr, Rejects (type_error ''fn is not a function''))
                | Some store \<Rightarrow>
                    (tr @ [CallSaveToken token client user],
                     (case store token client user of
                        Inl e \<Rightarrow> Rejects e
                      | Inr v \<Rightarrow> Resolves v)))
           | Inr vs \<Rightarrow> (tr, Rejects (type_error ''spread: array of another length''))))"

section \<open>handle\<close>

text \<open>
  \<^verbatim>\<open>JWTBearerGrantType.prototype.handle\<close>. The two argument checks and
  \<^verbatim>\<open>this.getScope(request)\<close> run synchronously; \<^verbatim>\<open>getUser\<close> and \<^verbatim>\<open>saveToken\<close> run
  inside \<^verbatim>\<open>then\<close> callbacks, so a throw of theirs rejects the returned promise, and
  \<^verbatim>\<open>saveToken\<close> runs only when \<^verbatim>\<open>getUser\<close> is fulfilled.
\<close>

definition handle :: "grant \<Rightarrow> jsval \<Rightarrow> jsval \<Rightarrow> event list \<times> jsval outcome" where
  "handle this request client =
     (if \<not> truthy request then
        ([], Throws (InvalidArgumentError ''Missing parameter: `request`''))
      else if \<not> truthy client then
        ([], Throws (InvalidArgumentError ''Missing parameter: `client`''))
      else
        (case getScope this request of
           Inl e \<Rightarrow> ([CallGetScope request], Throws e)
         | Inr scope \<Rightarrow>
             (case getUser this request of
                (tr1, Resolves user) \<Rightarrow>
                  (case saveToken this user client scope of
                     (tr2, r) \<Rightarrow> (CallGetScope request # tr1 @ tr2, in_then r))
              | (tr1, r) \<Rightarrow> (CallGetScope request # tr1, in_then r))))"

text \<open>The error an outcome fails with, thrown or rejected alike.\<close>

fun error_of :: "'a outcome \<Rightarrow> js_error option" where
  "error_of (Throws e) = Some e"
| "error_of (Rejects e) = Some e"
| "error_of (Resolves v) = None"

section \<open>A concrete host\<close>

text \<open>
  A host for the concrete runs below. Its resolver accepts one assertion, raises
  \<^verbatim>\<open>jwt expired\<close> on another and finds no user for the rest; its store returns the token
  it is given. The inherited methods read the requested scope from the request body,
  narrow the scope \<^verbatim>\<open>read write\<close> to \<^verbatim>\<open>read\<close>, and return fixed tokens and instants.
\<close>

definition scenario_user :: jsval where
  "scenario_user = JObj [(''id'', JStr ''u1'')]"

definition scenario_client :: jsval where
  "scenario_client = JObj [(''id'', JStr ''c1'')]"

definition scenario_request :: jsval where
  "scenario_request =
     JObj [(''body'', JObj [(''assertion'', JStr ''<valid-jwt>''), (''scope'', JStr ''read write'')])]"

definition request_with_assertion :: "jsval \<Rightarrow> jsval" where
  "request_with_assertion a = JObj [(''body'', JObj [(''assertion'', a)])]"

definition scenario_getUserFromJWT :: "jsval \<Rightarrow> settled" where
  "scenario_getUserFromJWT assertion =
     (if assertion = JStr ''<valid-jwt>'' then Inr scenario_user
      else if assertion = JStr ''<expired-jwt>'' then
        Inl \<lparr>kind = OtherError ''TokenExpiredError'', message = ''jwt expired''\<rparr>
      else Inr JNull)"

definition scenario_saveToken :: "jsval \<Rightarrow> jsval \<Rightarrow> jsval \<Rightarrow> settled" where
  "scenario_saveToken token client user = Inr token"

definition scenario_model :: oauth_model where
  "scenario_model =
     \<lparr>model_getUser = Some (\<lambda>username password. Inr JNull),
      model_getUserFromJWT = Some scenario_getUserFromJWT,
      model_saveToken = Some scenario_saveToken\<rparr>"

definition scenario_methods :: "oauth_model \<Rightarrow> grant" where
  "scenario_methods m =
     \<lparr>model = m,
      getScope = (\<lambda>request.
        case get_prop request ''body'' of Inl e \<Rightarrow> Inl e | Inr body \<Rightarrow> get_prop body ''scope''),
      validateScope = (\<lambda>user client scope.
        Resolves (if scope = JStr ''read write'' then JStr ''read'' else scope)),
      generateAccessToken = (\<lambda>client user scope. Resolves (JStr ''tok_A'')),
      generateRefreshToken = (\<lambda>client user scope. Resolves (JStr ''tok_R'')),
      getAccessTokenExpiresAt = Resolves (JNum 1000),
      getRefreshTokenExpiresAt = Resolves (JNum 2000)\<rparr>"

definition scenario_grant :: grant where
  "scenario_grant = scenario_methods scenario_model"

text \<open>
  An inherited constructor for the concrete runs: it stores \<^verbatim>\<open>options.model\<close> as
  \<^verbatim>\<open>this.model\<close>, which \<^verbatim>\<open>getUser\<close> and \<^verbatim>\<open>saveToken\<close> read.
\<close>

definition scenario_AbstractGrantType :: "options \<Rightarrow> js_error + grant" where
  "scenario_AbstractGrantType options =
     (case opt_model options of
        None \<Rightarrow> Inl (InvalidArgumentError ''Missing parameter: `model`'')
      | Some m \<Rightarrow> Inr (scenario_methods m))"

text \<open>
  A model written for the password grant: it has \<^verbatim>\<open>getUser\<close> and \<^verbatim>\<open>saveToken\<close> and
  no \<^verbatim>\<open>getUserFromJWT\<close>.
\<close>

definition password_model :: oauth_model where
  "password_model =
     \<lparr>model_getUser = Some (\<lambda>username password. Inr scenario_user),
      model_getUserFromJWT = None,
      model_saveToken = Some scenario_saveToken\<rparr>"

text \<open>A model with exactly the two methods request handling calls.\<close>

definition jwt_only_model :: oauth_model where
  "jwt_only_model = scenario_model\<lparr>model_getUser := None\<rparr>"

text \<open>The host whose resolver settles every assertion with \<open>r\<close>.\<close>

definition grant_resolving :: "settled \<Rightarrow> grant" where
  "grant_resolving r = scenario_methods (scenario_model\<lparr>model_getUserFromJWT := Some (\<lambda>assertion. r)\<rparr>)"

text \<open>The host whose refresh-token generator is rejected.\<close>

definition grant_refresh_down :: grant where
  "grant_refresh_down =
     scenario_grant\<lparr>generateRefreshToken :=
       (\<lambda>client user scope. Rejects \<lparr>kind = OtherError ''Error'', message = ''generator down''\<rparr>)\<rparr>"

section \<open>Argument checks of handle\<close>

text \<open>
  C4. When \<open>request\<close> is absent (falsy) or \<open>client\<close> is absent (falsy), \<open>handle\<close>
  throws an error of kind \<open>InvalidArgument\<close> and issues no call at all: the trace of
  collaborator calls is empty.
\<close>

theorem handle_missing_argument:
  assumes "\<not> truthy request \<or> \<not> truthy client"
  shows "\<exists>e. handle this request client = ([], Throws e) \<and> kind e = InvalidArgument"
  using assms by (auto simp: handle_def InvalidArgumentError_def OAuthError_def)

theorem handle_missing_argument_witness:
  "\<exists>e. handle scenario_grant JUndefined scenario_client = ([], Throws e)
     \<and> kind e = InvalidArgument"
  by (rule handle_missing_argument) simp

section \<open>getUser\<close>

lemma getUser_calls_resolver:
  assumes "get_prop request ''body'' = Inr body"
    and "get_prop body ''assertion'' = Inr assertion"
    and "truthy assertion"
    and "model_getUserFromJWT (model this) = Some resolve"
  shows "getUser this request =
     ([CallGetUserFromJWT assertion],
      (case resolve assertion of
         Inl e \<Rightarrow> Rejects (InvalidGrantError (message e))
       | Inr user \<Rightarrow>
           if truthy user then Resolves user
           else Rejects (InvalidGrantError ''Invalid grant: jwt is invalid'')))"
  using assms by (simp add: getUser_def InvalidGrantError_def OAuthError_def split: sum.splits)

lemma getUser_trace_no_save: "filter is_CallSaveToken (fst (getUser this request)) = []"
  by (simp add: getUser_def split: sum.splits option.splits)

lemma scenario_body:
  "get_prop (request_with_assertion a) ''body'' = Inr (JObj [(''assertion'', a)])"
  "get_prop (JObj [(''assertion'', a)]) ''assertion'' = Inr a"
  by (simp_all add: request_with_assertion_def)




text \<open>
  C7. For a request with a non-empty (truthy) assertion, when the resolver completes
  and returns no user (a falsy value), \<open>getUser\<close> is rejected with an error of kind
  \<open>InvalidGrant\<close> whose message is \<^verbatim>\<open>Invalid grant: jwt is invalid\<close>.
\<close>

theorem getUser_no_user:
  assumes "get_prop request ''body'' = Inr body"
    and "get_prop body ''assertion'' = Inr assertion"
    and "truthy assertion"
    and "model_getUserFromJWT (model this) = Some resolve"
    and "resolve assertion = Inr user"
    and "\<not> truthy user"
  shows "\<exists>err. getUser this request = ([CallGetUserFromJWT assertion], Rejects err)
     \<and> kind err = InvalidGrant \<and> message err = ''Invalid grant: jwt is invalid''"
  using assms by (simp add: getUser_calls_resolver InvalidGrantError_def OAuthError_def)

theorem getUser_no_user_witness:
  "\<exists>err. getUser scenario_grant (request_with_assertion (JStr ''<unknown-jwt>'')) =
       ([CallGetUserFromJWT (JStr ''<unknown-jwt>'')], Rejects err)
     \<and> kind err = InvalidGrant \<and> message err = ''Invalid grant: jwt is invalid''"
  using getUser_no_user
    [where request = "request_with_assertion (JStr ''<unknown-jwt>'')"
       and body = "JObj [(''assertion'', JStr ''<unknown-jwt>'')]"
       and assertion = "JStr ''<unknown-jwt>''"
       and this = scenario_grant
       and resolve = scenario_getUserFromJWT
       and user = JNull]
  by (simp add: scenario_body scenario_grant_def scenario_methods_def scenario_model_def
      scenario_getUserFromJWT_def)

text \<open>
  C9. For a request with a non-empty (truthy) assertion and a resolver that completes
  with \<open>user\<close>: each of \<^verbatim>\<open>null\<close>, \<^verbatim>\<open>undefined\<close>, \<^verbatim>\<open>false\<close>, \<^verbatim>\<open>0\<close> and the empty string
  is falsy; every falsy \<open>user\<close> makes \<open>getUser\<close> fail with the same \<open>InvalidGrant\<close>
  error; a truthy \<open>user\<close> is the value \<open>getUser\<close> is fulfilled with; and \<open>getUser\<close> is
  fulfilled only then, with that value.
\<close>

theorem getUser_falsy_user:
  assumes "get_prop request ''body'' = Inr body"
    and "get_prop body ''assertion'' = Inr assertion"
    and "truthy assertion"
    and "model_getUserFromJWT (model this) = Some resolve"
    and "resolve assertion = Inr user"
  shows "(user \<in> {JNull, JUndefined, JBool False, JNum 0, JStr []} \<longrightarrow> \<not> truthy user)
     \<and> (\<not> truthy user \<longrightarrow>
          getUser this request =
            ([CallGetUserFromJWT assertion],
             Rejects (InvalidGrantError ''Invalid grant: jwt is invalid''))
          \<and> kind (InvalidGrantError ''Invalid grant: jwt is invalid'') = InvalidGrant)
     \<and> (truthy user \<longrightarrow>
          getUser this request = ([CallGetUserFromJWT assertion], Resolves user))
     \<and> (\<forall>v. snd (getUser this request) = Resolves v \<longrightarrow> truthy user \<and> v = user)"
  using assms by (auto simp: getUser_calls_resolver InvalidGrantError_def OAuthError_def)

theorem getUser_falsy_user_witness:
  "\<not> truthy (JStr [])
     \<and> getUser (grant_resolving (Inr (JStr []))) (request_with_assertion (JStr ''<valid-jwt>'')) =
         ([CallGetUserFromJWT (JStr ''<valid-jwt>'')],
          Rejects (InvalidGrantError ''Invalid grant: jwt is invalid''))"
  using getUser_falsy_user
    [where request = "request_with_assertion (JStr ''<valid-jwt>'')"
       and body = "JObj [(''assertion'', JStr ''<valid-jwt>'')]"
       and assertion = "JStr ''<valid-jwt>''"
       and this = "grant_resolving (Inr (JStr []))"
       and resolve = "\<lambda>assertion. Inr (JStr [])"
       and user = "JStr []"]
  by (simp add: scenario_body grant_resolving_def scenario_methods_def scenario_model_def)

text \<open>
  C10. For a present (truthy) request whose \<^verbatim>\<open>body\<close> property is absent, \<open>getUser\<close>
  throws the \<open>TypeError\<close> of reading \<^verbatim>\<open>assertion\<close> from \<^verbatim>\<open>undefined\<close>, before any call:
  the error is of none of the kinds \<open>InvalidArgument\<close>, \<open>InvalidRequest\<close>,
  \<open>InvalidGrant\<close>.
\<close>

theorem getUser_missing_body:
  assumes "truthy request"
    and "get_prop request ''body'' = Inr JUndefined"
  shows "\<exists>e. getUser this request = ([], Throws e) \<and> kind e = TypeError
     \<and> kind e \<notin> {InvalidArgument, InvalidRequest, InvalidGrant}"
  using assms by (simp add: getUser_def type_error_def)

theorem getUser_missing_body_witness:
  "\<exists>e. getUser scenario_grant (JObj [(''headers'', JObj [])]) = ([], Throws e)
     \<and> kind e = TypeError \<and> kind e \<notin> {InvalidArgument, InvalidRequest, InvalidGrant}"
  using getUser_missing_body [where request = "JObj [(''headers'', JObj [])]" and this = scenario_grant]
  by simp

text \<open>
  C5, as the spec states it: every request whose assertion is empty or absent makes
  \<open>getUser\<close> fail with \<open>InvalidRequest\<close> and the message
  \<^verbatim>\<open>Missing parameter: assertion\<close>. Two requests refute it. With an empty body the
  message is not that text: the code quotes the parameter name in backquotes. With no
  body at all the assertion is absent as well, and the failure is not an
  \<open>InvalidRequest\<close>.
\<close>

theorem getUser_missing_assertion_counterexample:
  "\<not> (\<exists>e. error_of (snd (getUser scenario_grant (JObj [(''body'', JObj [])]))) = Some e
          \<and> kind e = InvalidRequest \<and> message e = ''Missing parameter: assertion'')
   \<and> \<not> (\<exists>e. error_of (snd (getUser scenario_grant (JObj []))) = Some e
          \<and> kind e = InvalidRequest)"
  by (simp add: getUser_def InvalidRequestError_def OAuthError_def type_error_def)

text \<open>
  C5, amended. For every request that carries a body (the read of
  \<^verbatim>\<open>request.body.assertion\<close> does not throw) whose assertion is empty or absent (falsy),
  \<open>getUser\<close> throws an error of kind \<open>InvalidRequest\<close> with the message
  \<^verbatim>\<open>Missing parameter: `assertion`\<close>, and the resolver is never invoked: the trace of
  calls is empty.
\<close>

theorem getUser_missing_assertion:
  assumes "get_prop request ''body'' = Inr body"
    and "get_prop body ''assertion'' = Inr assertion"
    and "\<not> truthy assertion"
  shows "\<exists>e. getUser this request = ([], Throws e) \<and> kind e = InvalidRequest
     \<and> message e = ''Missing parameter: `assertion`''"
  using assms by (simp add: getUser_def InvalidRequestError_def OAuthError_def)

theorem getUser_missing_assertion_witness:
  "\<exists>e. getUser scenario_grant (request_with_assertion (JStr [])) = ([], Throws e)
     \<and> kind e = InvalidRequest \<and> message e = ''Missing parameter: `assertion`''"
  using getUser_missing_assertion
    [where request = "request_with_assertion (JStr [])"
       and body = "JObj [(''assertion'', JStr [])]"
       and assertion = "JStr []"
       and this = scenario_grant]
  by (simp add: scenario_body)

section \<open>The constructor\<close>

lemma JWTBearerGrantType_checks:
  assumes "options = None \<or> (\<exists>opts. options = Some opts \<and>
     (opt_model opts = None \<or> (\<exists>m. opt_model opts = Some m \<and>
        (model_getUser m = None \<or> model_saveToken m = None))))"
  shows "\<exists>e. JWTBearerGrantType AbstractGrantType options = Inl e \<and> kind e = InvalidArgument"
  using assms by (auto simp: JWTBearerGrantType_def InvalidArgumentError_def OAuthError_def)

text \<open>
  C3. The constructor tests the model for \<^verbatim>\<open>getUser\<close> and \<^verbatim>\<open>saveToken\<close>, while
  \<open>getUser\<close> calls \<^verbatim>\<open>getUserFromJWT\<close>. A model with \<^verbatim>\<open>getUser\<close> and \<^verbatim>\<open>saveToken\<close> and
  no \<^verbatim>\<open>getUserFromJWT\<close> is accepted, and the absence shows at request time as a
  \<open>TypeError\<close>; a model with \<^verbatim>\<open>getUserFromJWT\<close> and \<^verbatim>\<open>saveToken\<close> and no \<^verbatim>\<open>getUser\<close>,
  which has all that request handling calls, is refused with \<open>InvalidArgument\<close>.
\<close>

theorem constructor_checks_other_method:
  "(\<exists>this. JWTBearerGrantType scenario_AbstractGrantType
        (Some \<lparr>opt_model = Some password_model\<rparr>) = Inr this
      \<and> model_getUserFromJWT (model this) = None
      \<and> (\<exists>e. getUser this scenario_request = ([], Throws e) \<and> kind e = TypeError))
   \<and> (\<exists>e. JWTBearerGrantType scenario_AbstractGrantType
        (Some \<lparr>opt_model = Some jwt_only_model\<rparr>) = Inl e
      \<and> kind e = InvalidArgument
      \<and> model_getUserFromJWT jwt_only_model = Some scenario_getUserFromJWT
      \<and> model_saveToken jwt_only_model = Some scenario_saveToken)"
  by (simp add: JWTBearerGrantType_def scenario_AbstractGrantType_def password_model_def
      jwt_only_model_def scenario_model_def scenario_methods_def scenario_request_def
      getUser_def type_error_def InvalidArgumentError_def OAuthError_def)

section \<open>saveToken and the whole grant\<close>

lemma eval_array_no_save:
  "\<forall>x\<in>set xs. \<not> is_CallSaveToken (fst x) \<Longrightarrow>
     filter is_CallSaveToken (fst (eval_array xs)) = []"
  by (induction xs rule: eval_array.induct) (auto split: prod.splits sum.splits)

lemma eval_array_Inr:
  "eval_array xs = (tr, Inr rs) \<Longrightarrow> tr = map fst xs \<and> rs = map snd xs"
  by (induction xs arbitrary: tr rs rule: eval_array.induct)
     (auto split: prod.splits sum.splits)

lemma Promise_all_Inr: "Promise_all rs = Inr vs \<Longrightarrow> rs = map Resolves vs"
  by (induction rs arbitrary: vs rule: Promise_all.induct) (auto split: sum.splits)

lemma saveToken_all_resolved:
  assumes "validateScope this user client scope = Resolves S"
    and "generateAccessToken this client user scope = Resolves A"
    and "generateRefreshToken this client user scope = Resolves R"
    and "getAccessTokenExpiresAt this = Resolves Ea"
    and "getRefreshTokenExpiresAt this = Resolves Er"
    and "model_saveToken (model this) = Some store"
  shows "saveToken this user client scope =
     ([CallValidateScope user client scope,
       CallGenerateAccessToken client user scope,
       CallGenerateRefreshToken client user scope,
       CallGetAccessTokenExpiresAt,
       CallGetRefreshTokenExpiresAt,
       CallSaveToken
         (JObj [(''accessToken'', A), (''accessTokenExpiresAt'', Ea), (''refreshToken'', R),
                (''refreshTokenExpiresAt'', Er), (''scope'', S)]) client user],
      (case store
         (JObj [(''accessToken'', A), (''accessTokenExpiresAt'', Ea), (''refreshToken'', R),
                (''refreshTokenExpiresAt'', Er), (''scope'', S)]) client user of
         Inl e \<Rightarrow> Rejects e
       | Inr v \<Rightarrow> Resolves v))"
  using assms by (simp add: saveToken_def Let_def)

lemma in_then_settled:
  "in_then (case r of Inl e \<Rightarrow> Rejects e | Inr v \<Rightarrow> Resolves v) =
     (case r of Inl e \<Rightarrow> Rejects e | Inr v \<Rightarrow> Resolves v)"
  by (cases r) simp_all

lemma failed_in_then: "failed (in_then r) = failed r"
  by (cases r) simp_all

text \<open>
  C1. When the resolver yields user \<open>U\<close>, the scope validator \<open>S\<close>, the generators \<open>A\<close>
  and \<open>R\<close>, and the expiry policy \<open>Ea\<close> and \<open>Er\<close>, the calls of the model's
  \<^verbatim>\<open>saveToken\<close> made by \<open>handle\<close> are exactly one, with the token
  \<^verbatim>\<open>{accessToken: A, accessTokenExpiresAt: Ea, refreshToken: R, refreshTokenExpiresAt: Er, scope: S}\<close>,
  the client and \<open>U\<close>; and \<open>handle\<close> settles as that call does: fulfilled with the value
  the store returns, rejected with the error the store fails with.
\<close>

theorem handle_persists_assembled_token:
  assumes "truthy request" and "truthy client"
    and "getScope this request = Inr scope"
    and "getUser this request = (tr, Resolves U)"
    and "validateScope this U client scope = Resolves S"
    and "generateAccessToken this client U scope = Resolves A"
    and "generateRefreshToken this client U scope = Resolves R"
    and "getAccessTokenExpiresAt this = Resolves Ea"
    and "getRefreshTokenExpiresAt this = Resolves Er"
    and "model_saveToken (model this) = Some store"
  shows "filter is_CallSaveToken (fst (handle this request client)) =
       [CallSaveToken
          (JObj [(''accessToken'', A), (''accessTokenExpiresAt'', Ea), (''refreshToken'', R),
                 (''refreshTokenExpiresAt'', Er), (''scope'', S)]) client U]
     \<and> snd (handle this request client) =
         (case store
            (JObj [(''accessToken'', A), (''accessTokenExpiresAt'', Ea), (''refreshToken'', R),
                   (''refreshTokenExpiresAt'', Er), (''scope'', S)]) client U of
            Inl e \<Rightarrow> Rejects e
          | Inr v \<Rightarrow> Resolves v)"
proof -
  have "filter is_CallSaveToken tr = []"
    using getUser_trace_no_save [of this request] assms(4) by simp
  then show ?thesis
    using assms by (simp add: handle_def saveToken_all_resolved in_then_settled)
qed

theorem handle_persists_assembled_token_witness:
  "filter is_CallSaveToken (fst (handle scenario_grant scenario_request scenario_client)) =
       [CallSaveToken
          (JObj [(''accessToken'', JStr ''tok_A''), (''accessTokenExpiresAt'', JNum 1000),
                 (''refreshToken'', JStr ''tok_R''), (''refreshTokenExpiresAt'', JNum 2000),
                 (''scope'', JStr ''read'')]) scenario_client scenario_user]
     \<and> snd (handle scenario_grant scenario_request scenario_client) =
         Resolves
           (JObj [(''accessToken'', JStr ''tok_A''), (''accessTokenExpiresAt'', JNum 1000),
                  (''refreshToken'', JStr ''tok_R''), (''refreshTokenExpiresAt'', JNum 2000),
                  (''scope'', JStr ''read'')])"
  using handle_persists_assembled_token
    [where this = scenario_grant and request = scenario_request and client = scenario_client
       and scope = "JStr ''read write''" and tr = "[CallGetUserFromJWT (JStr ''<valid-jwt>'')]"
       and U = scenario_user and S = "JStr ''read''" and A = "JStr ''tok_A''"
       and R = "JStr ''tok_R''" and Ea = "JNum 1000" and Er = "JNum 2000"
       and store = scenario_saveToken]
  by (simp add: scenario_grant_def scenario_methods_def scenario_model_def scenario_request_def
      scenario_client_def scenario_user_def scenario_getUserFromJWT_def scenario_saveToken_def
      getUser_def)

text \<open>
  C2. When one of the five producers called by \<open>saveToken\<close> fails (it throws, or its
  promise is rejected), \<open>saveToken\<close> fails and its trace holds no call of the model's
  \<^verbatim>\<open>saveToken\<close>.
\<close>

theorem saveToken_no_partial_persistence:
  assumes "failed (validateScope this user client scope)
     \<or> failed (generateAccessToken this client user scope)
     \<or> failed (generateRefreshToken this client user scope)
     \<or> failed (getAccessTokenExpiresAt this)
     \<or> failed (getRefreshTokenExpiresAt this)"
  shows "failed (snd (saveToken this user client scope))
     \<and> filter is_CallSaveToken (fst (saveToken this user client scope)) = []"
proof -
  let ?xs = "[(CallValidateScope user client scope, validateScope this user client scope),
         (CallGenerateAccessToken client user scope, generateAccessToken this client user scope),
         (CallGenerateRefreshToken client user scope, generateRefreshToken this client user scope),
         (CallGetAccessTokenExpiresAt, getAccessTokenExpiresAt this),
         (CallGetRefreshTokenExpiresAt, getRefreshTokenExpiresAt this)]"
  obtain tr r where ea: "eval_array ?xs = (tr, r)"
    by (cases "eval_array ?xs")
  have ns: "filter is_CallSaveToken tr = []"
    using eval_array_no_save [of ?xs] ea by simp
  show ?thesis
  proof (cases r)
    case (Inl e)
    with ea ns show ?thesis by (simp add: saveToken_def)
  next
    case fns: (Inr fns)
    show ?thesis
    proof (cases "Promise_all fns")
      case (Inl e)
      with ea ns fns show ?thesis by (simp add: saveToken_def)
    next
      case (Inr vs)
      have "map snd ?xs = map Resolves vs"
        using eval_array_Inr [of ?xs tr fns] Promise_all_Inr [OF Inr] ea fns by simp
      then have "\<forall>x \<in> set (map snd ?xs). \<not> failed x"
        by (simp only:) auto
      with assms show ?thesis by simp
    qed
  qed
qed

theorem saveToken_no_partial_persistence_witness:
  "failed (snd (saveToken grant_refresh_down scenario_user scenario_client (JStr ''read'')))
     \<and> filter is_CallSaveToken
         (fst (saveToken grant_refresh_down scenario_user scenario_client (JStr ''read''))) = []"
  using saveToken_no_partial_persistence
    [where this = grant_refresh_down and user = scenario_user and client = scenario_client
       and scope = "JStr ''read''"]
  by (simp add: grant_refresh_down_def)

text \<open>
  C8. In a successful grant the requested scope is what \<^verbatim>\<open>getScope\<close> extracts from the
  request, before the resolver is called; the scope validator and both token generators
  are called with that requested scope, the generators whatever the validator answers;
  and the token handed to the store carries the validated scope \<open>S\<close>. The calls are
  issued in this order.
\<close>

theorem handle_generators_get_requested_scope:
  assumes "truthy request" and "truthy client"
    and "getScope this request = Inr scope"
    and "get_prop request ''body'' = Inr body"
    and "get_prop body ''assertion'' = Inr assertion"
    and "truthy assertion"
    and "model_getUserFromJWT (model this) = Some resolve"
    and "resolve assertion = Inr U"
    and "truthy U"
    and "validateScope this U client scope = Resolves S"
    and "generateAccessToken this client U scope = Resolves A"
    and "generateRefreshToken this client U scope = Resolves R"
    and "getAccessTokenExpiresAt this = Resolves Ea"
    and "getRefreshTokenExpiresAt this = Resolves Er"
    and "model_saveToken (model this) = Some store"
  shows "fst (handle this request client) =
     [CallGetScope request,
      CallGetUserFromJWT assertion,
      CallValidateScope U client scope,
      CallGenerateAccessToken client U scope,
      CallGenerateRefreshToken client U scope,
      CallGetAccessTokenExpiresAt,
      CallGetRefreshTokenExpiresAt,
      CallSaveToken
        (JObj [(''accessToken'', A), (''accessTokenExpiresAt'', Ea), (''refreshToken'', R),
               (''refreshTokenExpiresAt'', Er), (''scope'', S)]) client U]"
  using assms by (simp add: handle_def getUser_calls_resolver saveToken_all_resolved)

theorem handle_generators_get_requested_scope_witness:
  "fst (handle scenario_grant scenario_request scenario_client) =
     [CallGetScope scenario_request,
      CallGetUserFromJWT (JStr ''<valid-jwt>''),
      CallValidateScope scenario_user scenario_client (JStr ''read write''),
      CallGenerateAccessToken scenario_client scenario_user (JStr ''read write''),
      CallGenerateRefreshToken scenario_client scenario_user (JStr ''read write''),
      CallGetAccessTokenExpiresAt,
      CallGetRefreshTokenExpiresAt,
      CallSaveToken
        (JObj [(''accessToken'', JStr ''tok_A''), (''accessTokenExpiresAt'', JNum 1000),
               (''refreshToken'', JStr ''tok_R''), (''refreshTokenExpiresAt'', JNum 2000),
               (''scope'', JStr ''read'')]) scenario_client scenario_user]"
  using handle_generators_get_requested_scope
    [where this = scenario_grant and request = scenario_request and client = scenario_client
       and scope = "JStr ''read write''"
       and body = "JObj [(''assertion'', JStr ''<valid-jwt>''), (''scope'', JStr ''read write'')]"
       and assertion = "JStr ''<valid-jwt>''" and resolve = scenario_getUserFromJWT
       and U = scenario_user and S = "JStr ''read''" and A = "JStr ''tok_A''"
       and R = "JStr ''tok_R''" and Ea = "JNum 1000" and Er = "JNum 2000"
       and store = scenario_saveToken]
  by (simp add: scenario_grant_def scenario_methods_def scenario_model_def scenario_request_def
      scenario_client_def scenario_user_def scenario_getUserFromJWT_def)

end
